theory Spec2Isabelle
  imports Complex_Main
begin

section \<open>TerrainOffsetProperty: data\<close>

text \<open>
  The theory embeds \<^verbatim>\<open>Source/DataSources/TerrainOffsetProperty.js\<close>. JavaScript numbers
  are read as real numbers: rounding, infinities and NaN are outside the model. Objects
  that the source mutates in place (\<^verbatim>\<open>this\<close>, the scene) are passed in and returned
  updated; a value that may be \<^verbatim>\<open>undefined\<close> is an \<open>option\<close>.
\<close>

datatype HeightReference = NONE | CLAMP_TO_GROUND | RELATIVE_TO_GROUND

datatype Cartesian3 = Cartesian3 (x_of: real) (y_of: real) (z_of: real)

datatype Cartographic = Cartographic (longitude: real) (latitude: real) (carto_height: real)

text \<open>
  The failures the source can raise: \<open>DeveloperError\<close> from the \<^verbatim>\<open>Check\<close> calls of the
  constructor, \<open>TypeError\<close> from reading a property of \<^verbatim>\<open>undefined\<close>.
\<close>

datatype error = DeveloperError | TypeError

text \<open>
  \<^verbatim>\<open>heightProperty.heightReference\<close>: the object passed as \<^verbatim>\<open>height\<close> (or
  \<^verbatim>\<open>extrudedHeight\<close>) carries an optional property \<^verbatim>\<open>heightReference\<close> whose
  \<^verbatim>\<open>getValue(time)\<close> may itself yield \<^verbatim>\<open>undefined\<close>.
\<close>

record 't HeightSource =
  heightReference :: "('t \<Rightarrow> HeightReference option) option"

text \<open>
  The globe collaborator, \<^verbatim>\<open>scene.globe\<close>. Its code is not under the embedded source, so
  the three functions the source calls on it are fields that every theorem takes as
  given: \<^verbatim>\<open>globe.ellipsoid.cartesianToCartographic\<close>,
  \<^verbatim>\<open>globe.ellipsoid.geodeticSurfaceNormal\<close> and \<^verbatim>\<open>globe.getHeight\<close> (which yields
  \<^verbatim>\<open>undefined\<close> where no terrain detail is resident).
\<close>

record Globe =
  cartesianToCartographic :: "Cartesian3 \<Rightarrow> Cartographic"
  geodeticSurfaceNormal :: "Cartesian3 \<Rightarrow> Cartesian3"
  getHeight :: "Cartographic \<Rightarrow> real option"

text \<open>
  The fields of an instance, named as in the constructor without the leading underscore.
  \<open>oid\<close> is the identity of the object (what \<^verbatim>\<open>===\<close> compares), \<open>scene\<close> the identity of
  the scene object it references. \<open>definitionChanged\<close> counts the calls of
  \<^verbatim>\<open>raiseEvent\<close> on the event \<^verbatim>\<open>_definitionChanged\<close>. The three remove functions are
  represented by the handle they release. \<open>destroyed\<close> is the mark left by
  \<^verbatim>\<open>destroyObject\<close>.
\<close>

record 't TerrainOffsetProperty =
  oid :: nat
  scene :: nat
  height :: "'t HeightSource option"
  extrudedHeight :: "'t HeightSource option"
  getPosition :: "'t \<Rightarrow> Cartesian3 option"
  position :: Cartesian3
  cartographicPosition :: Cartographic
  normal :: Cartesian3
  definitionChanged :: nat
  terrainHeight :: real
  removeCallbackFunc :: "nat option"
  removeEventListener :: nat
  removeModeListener :: nat
  destroyed :: bool

text \<open>
  The part of the scene that the instance changes: the listeners it has on the two
  events, and its registrations with \<^verbatim>\<open>globe._surface.updateHeight\<close>.
  \<open>heightCallbacks\<close> lists the handles of the registrations in flight,
  \<open>updateHeightCalls\<close> counts the calls of \<^verbatim>\<open>updateHeight\<close>, \<open>cancelled\<close> logs the
  handles whose remove function has been called, \<open>nextHandle\<close> is the next fresh handle.
\<close>

record SceneState =
  terrainProviderChanged :: "nat list"
  morphComplete :: "nat list"
  heightCallbacks :: "nat list"
  nextHandle :: nat
  updateHeightCalls :: nat
  cancelled :: "nat list"

type_synonym 't state = "'t TerrainOffsetProperty \<times> SceneState"

section \<open>Collaborators outside the embedded source\<close>

text \<open>
  Modelled from the spec: \<^verbatim>\<open>Cartesian3.ZERO\<close> (Core/Cartesian3 is missing), "the zero
  vector", "the origin".
\<close>

definition ZERO :: Cartesian3 where
  "ZERO = Cartesian3 0 0 0"

text \<open>
  Modelled from the spec: \<^verbatim>\<open>Cartesian3.clone\<close> (Core/Cartesian3 is missing), a copy of the
  three components ("writes into a caller-supplied buffer").
\<close>

definition Cartesian3_clone :: "Cartesian3 \<Rightarrow> Cartesian3" where
  "Cartesian3_clone c = Cartesian3 (x_of c) (y_of c) (z_of c)"

text \<open>
  Modelled from the spec: \<^verbatim>\<open>Cartesian3.equals\<close> (Core/Cartesian3 is missing), "yields
  exactly the origin", "equal cached positions": the three components are equal.
\<close>

definition Cartesian3_equals :: "Cartesian3 \<Rightarrow> Cartesian3 \<Rightarrow> bool" where
  "Cartesian3_equals left right \<longleftrightarrow>
     x_of left = x_of right \<and> y_of left = y_of right \<and> z_of left = z_of right"

text \<open>
  Modelled from the spec: \<^verbatim>\<open>Cartesian3.multiplyByScalar\<close> (Core/Cartesian3 is missing),
  "\<^verbatim>\<open>cachedNormal * cachedTerrainHeight\<close>".
\<close>

definition Cartesian3_multiplyByScalar :: "Cartesian3 \<Rightarrow> real \<Rightarrow> Cartesian3" where
  "Cartesian3_multiplyByScalar c s = Cartesian3 (x_of c * s) (y_of c * s) (z_of c * s)"

text \<open>
  Modelled from the spec: \<^verbatim>\<open>CesiumMath.EPSILON10\<close> (Core/Math is missing), "a small epsilon
  (about 1e-10 in position units)".
\<close>

definition EPSILON10 :: real where
  "EPSILON10 = 1 / 10 ^ 10"

text \<open>
  \<^verbatim>\<open>Cartesian3.equalsEpsilon\<close> is missing too, and the spec does not fix it (which norm,
  whether the bound is included, whether the tolerance is absolute or relative): it says
  only "differs by less than the epsilon". So \<open>getValue\<close> takes the comparison as a
  parameter, and what is proved of \<open>getValue\<close> holds for every comparison.

  Modelled from the spec: \<^verbatim>\<open>Cartesian3.equalsEpsilon\<close> (Core/Cartesian3 is missing), "equal
  within epsilon": each component differs by at most the epsilon. This is the comparison
  used where a theorem is run on a concrete input.
\<close>

type_synonym equalsEpsilon = "Cartesian3 \<Rightarrow> Cartesian3 \<Rightarrow> real \<Rightarrow> bool"

definition Cartesian3_equalsEpsilon :: equalsEpsilon where
  "Cartesian3_equalsEpsilon left right eps \<longleftrightarrow>
     \<bar>x_of left - x_of right\<bar> \<le> eps \<and> \<bar>y_of left - y_of right\<bar> \<le> eps
     \<and> \<bar>z_of left - z_of right\<bar> \<le> eps"

text \<open>
  Modelled from the spec: \<^verbatim>\<open>Property.getValueOrDefault\<close> (DataSources/Property is
  missing), "a reactive scalar-or-enum value retrievable at a given time, defaulting to a
  'no offset' mode when absent".
\<close>

definition Property_getValueOrDefault ::
    "('t \<Rightarrow> 'a option) option \<Rightarrow> 't \<Rightarrow> 'a \<Rightarrow> 'a" where
  "Property_getValueOrDefault property time valueDefault =
     (case property of
        None \<Rightarrow> valueDefault
      | Some p \<Rightarrow> (case p time of None \<Rightarrow> valueDefault | Some v \<Rightarrow> v))"

text \<open>
  Modelled from the spec: \<^verbatim>\<open>Property.equals\<close> (DataSources/Property is missing) on two
  positions, "have equal cached positions".
\<close>

definition Property_equals :: "Cartesian3 \<Rightarrow> Cartesian3 \<Rightarrow> bool" where
  "Property_equals left right = Cartesian3_equals left right"

text \<open>
  Modelled from the spec: \<^verbatim>\<open>Event.addEventListener\<close> (Core/Event is missing), "subscribe to
  the scene's notifications", and the function it returns, "released on teardown". A
  listener is named by the \<open>oid\<close> of the instance it belongs to.
\<close>

definition addEventListener :: "nat \<Rightarrow> nat list \<Rightarrow> nat list" where
  "addEventListener l listeners = listeners @ [l]"

definition removeListener :: "nat \<Rightarrow> nat list \<Rightarrow> nat list" where
  "removeListener l listeners = remove1 l listeners"

text \<open>
  Modelled from the spec: \<^verbatim>\<open>globe._surface.updateHeight\<close> (Scene/QuadtreePrimitive is
  missing), "an asynchronous height-refinement registration function taking a geodetic
  coordinate and a completion callback, returning a cancellation handle". The callback is
  \<open>updateFunction\<close> below; the registration is in flight until its handle is released.
\<close>

definition surface_updateHeight :: "Cartographic \<Rightarrow> SceneState \<Rightarrow> nat \<times> SceneState" where
  "surface_updateHeight cartographic w =
     (nextHandle w,
      w\<lparr>heightCallbacks := heightCallbacks w @ [nextHandle w],
        nextHandle := Suc (nextHandle w),
        updateHeightCalls := Suc (updateHeightCalls w)\<rparr>)"

text \<open>
  Modelled from the spec: the function returned by \<^verbatim>\<open>updateHeight\<close>, "superseding or
  destroying the instance releases the pending registration".
\<close>

definition removeCallback :: "nat \<Rightarrow> SceneState \<Rightarrow> SceneState" where
  "removeCallback h w =
     w\<lparr>heightCallbacks := removeAll h (heightCallbacks w), cancelled := cancelled w @ [h]\<rparr>"

text \<open>
  Modelled from the spec: \<^verbatim>\<open>destroyObject\<close> (Core/destroyObject is missing), "marks the
  instance as destroyed". What a later call of a method does on the marked instance is
  decided by that function and is not in the spec, so no operation is modelled after
  \<open>destroy\<close>.
\<close>

definition destroyObject :: "'t TerrainOffsetProperty \<Rightarrow> 't TerrainOffsetProperty" where
  "destroyObject this = this\<lparr>destroyed := True\<rparr>"

section \<open>The source\<close>

text \<open>
  The constructor. The four \<^verbatim>\<open>Check\<close> calls raise when \<^verbatim>\<open>height\<close> or
  \<^verbatim>\<open>extrudedHeight\<close> is \<^verbatim>\<open>undefined\<close> (the scene and the position function are always
  given here). \<open>ident\<close> is the identity of the new object.
\<close>

definition TerrainOffsetProperty_new ::
    "nat \<Rightarrow> nat \<Rightarrow> 't HeightSource option \<Rightarrow> 't HeightSource option
     \<Rightarrow> ('t \<Rightarrow> Cartesian3 option) \<Rightarrow> SceneState \<Rightarrow> error + 't state" where
  "TerrainOffsetProperty_new ident sc h eh gp w =
     (if h = None \<or> eh = None then Inl DeveloperError
      else Inr
        (\<lparr>oid = ident, scene = sc, height = h, extrudedHeight = eh, getPosition = gp,
          position = Cartesian3 0 0 0,
          cartographicPosition = Cartographic 0 0 0,
          normal = Cartesian3 0 0 0,
          definitionChanged = 0,
          terrainHeight = 0,
          removeCallbackFunc = None,
          removeEventListener = ident,
          removeModeListener = ident,
          destroyed = False\<rparr>,
         w\<lparr>terrainProviderChanged := addEventListener ident (terrainProviderChanged w),
           morphComplete := addEventListener ident (morphComplete w)\<rparr>))"

text \<open>
  \<^verbatim>\<open>updateFunction\<close>, the callback that \<^verbatim>\<open>_updateClamping\<close> registers. It closes over the
  ellipsoid of the globe that was attached at registration.
\<close>

definition updateFunction ::
    "Globe \<Rightarrow> Cartesian3 \<Rightarrow> 't TerrainOffsetProperty \<Rightarrow> 't TerrainOffsetProperty" where
  "updateFunction globe clampedPosition that =
     (let carto = cartesianToCartographic globe clampedPosition
      in that\<lparr>terrainHeight := carto_height carto,
              definitionChanged := Suc (definitionChanged that)\<rparr>)"

text \<open>\<^verbatim>\<open>_updateClamping\<close>; the first argument is \<^verbatim>\<open>scene.globe\<close> at the call.\<close>

definition updateClamping :: "Globe option \<Rightarrow> 't state \<Rightarrow> 't state" where
  "updateClamping g s =
     (case s of (this, w) \<Rightarrow>
       (case g of
          None \<Rightarrow> (this\<lparr>terrainHeight := 0\<rparr>, w)
        | Some globe \<Rightarrow>
            (let w1 = (case removeCallbackFunc this of
                         Some h \<Rightarrow> removeCallback h w
                       | None \<Rightarrow> w);
                 cartographic = cartesianToCartographic globe (position this);
                 this1 = this\<lparr>cartographicPosition := cartographic\<rparr>;
                 reg = surface_updateHeight cartographic w1;
                 this2 = this1\<lparr>removeCallbackFunc := Some (fst reg)\<rparr>
             in (case getHeight globe cartographic of
                   Some hgt \<Rightarrow> (this2\<lparr>terrainHeight := hgt\<rparr>, snd reg)
                 | None \<Rightarrow> (this2\<lparr>terrainHeight := 0\<rparr>, snd reg)))))"

text \<open>
  \<^verbatim>\<open>getValue\<close>. The result is the value returned or the error raised, with the state as
  the call leaves it (an exception does not undo the assignments made before it). The
  last lines read \<^verbatim>\<open>this._scene.globe.ellipsoid\<close>: with no globe that is a property of
  \<^verbatim>\<open>undefined\<close>.
\<close>

definition getValue ::
    "equalsEpsilon \<Rightarrow> Globe option \<Rightarrow> 't \<Rightarrow> 't state \<Rightarrow> (error + Cartesian3) \<times> 't state" where
  "getValue eqEps g time s =
     (case s of (this, w) \<Rightarrow>
       (let heightRef = (case height this of
                           None \<Rightarrow> NONE
                         | Some hp \<Rightarrow> Property_getValueOrDefault (heightReference hp) time NONE);
            extrudedHeightRef = (case extrudedHeight this of
                           None \<Rightarrow> NONE
                         | Some ehp \<Rightarrow> Property_getValueOrDefault (heightReference ehp) time NONE)
        in if heightRef = NONE \<and> extrudedHeightRef \<noteq> RELATIVE_TO_GROUND
           then (Inr (Cartesian3_clone ZERO), s)
           else (case getPosition this time of
                   None \<Rightarrow> (Inr (Cartesian3_clone ZERO), s)
                 | Some p \<Rightarrow>
                     if Cartesian3_equals p ZERO then (Inr (Cartesian3_clone ZERO), s)
                     else if eqEps (position this) p EPSILON10
                     then (Inr (Cartesian3_multiplyByScalar (normal this) (terrainHeight this)), s)
                     else
                       (let s1 = updateClamping g (this\<lparr>position := Cartesian3_clone p\<rparr>, w)
                        in (case g of
                              None \<Rightarrow> (Inl TypeError, s1)
                            | Some globe \<Rightarrow>
                                (let n = geodeticSurfaceNormal globe p;
                                     this3 = (fst s1)\<lparr>normal := n\<rparr>
                                 in (Inr (Cartesian3_multiplyByScalar n (terrainHeight this3)),
                                     (this3, snd s1))))))))"

text \<open>
  \<^verbatim>\<open>equals\<close>. The argument is any JavaScript value; \<^verbatim>\<open>this === other\<close> compares the
  identities of the two objects.
\<close>

datatype 't js_value = Undefined | Instance "'t TerrainOffsetProperty" | OtherObject

definition equals :: "'t TerrainOffsetProperty \<Rightarrow> 't js_value \<Rightarrow> bool" where
  "equals this other =
     (case other of
        Instance that \<Rightarrow>
          oid this = oid that \<or>
          (scene this = scene that \<and> Property_equals (position this) (position that))
      | _ \<Rightarrow> False)"

text \<open>\<^verbatim>\<open>destroy\<close>.\<close>

definition destroy :: "'t state \<Rightarrow> 't state" where
  "destroy s =
     (case s of (this, w) \<Rightarrow>
       (let w1 = w\<lparr>terrainProviderChanged :=
                     removeListener (removeEventListener this) (terrainProviderChanged w)\<rparr>;
            w2 = w1\<lparr>morphComplete := removeListener (removeModeListener this) (morphComplete w1)\<rparr>;
            w3 = (case removeCallbackFunc this of
                    Some h \<Rightarrow> removeCallback h w2
                  | None \<Rightarrow> w2)
        in (destroyObject this, w3)))"

section \<open>Resolved modes and the life of an instance\<close>

text \<open>
  The height-reference mode that \<^verbatim>\<open>getValue\<close> resolves from a height source at a time
  (its first lines, for \<^verbatim>\<open>_height\<close> and for \<^verbatim>\<open>_extrudedHeight\<close>), and the test that
  sends it past the first \<^verbatim>\<open>return\<close>: the mode asks for an offset.
\<close>

definition resolved :: "'t HeightSource option \<Rightarrow> 't \<Rightarrow> HeightReference" where
  "resolved src time =
     (case src of
        None \<Rightarrow> NONE
      | Some hp \<Rightarrow> Property_getValueOrDefault (heightReference hp) time NONE)"

definition offsetRequested :: "'t TerrainOffsetProperty \<Rightarrow> 't \<Rightarrow> bool" where
  "offsetRequested this time \<longleftrightarrow>
     \<not> (resolved (height this) time = NONE
        \<and> resolved (extrudedHeight this) time \<noteq> RELATIVE_TO_GROUND)"

text \<open>
  What can happen to an instance between its construction and its teardown: an
  evaluation, one of the two notifications of the scene (both listeners call
  \<^verbatim>\<open>_updateClamping\<close>), or the surface running the callback of a registration that is
  in flight. Each carries the globe attached to the scene at that moment; the callback
  carries the globe it closed over and the clamped position it is given.
\<close>

datatype 't operation =
    GetValue "Globe option" 't
  | TerrainProviderChanged "Globe option"
  | MorphComplete "Globe option"
  | HeightRefined nat Globe Cartesian3

fun step :: "equalsEpsilon \<Rightarrow> 't state \<Rightarrow> 't operation \<Rightarrow> 't state" where
  "step eqEps s (GetValue g time) = snd (getValue eqEps g time s)"
| "step eqEps s (TerrainProviderChanged g) = updateClamping g s"
| "step eqEps s (MorphComplete g) = updateClamping g s"
| "step eqEps s (HeightRefined h globe clampedPosition) =
     (if h \<in> set (heightCallbacks (snd s))
      then (updateFunction globe clampedPosition (fst s), snd s)
      else s)"

definition run :: "equalsEpsilon \<Rightarrow> 't state \<Rightarrow> 't operation list \<Rightarrow> 't state" where
  "run eqEps s ops = foldl (step eqEps) s ops"

text \<open>The registrations in flight are exactly the one the instance holds the handle of.\<close>

definition pending :: "'t state \<Rightarrow> nat list" where
  "pending s = (case removeCallbackFunc (fst s) of None \<Rightarrow> [] | Some h \<Rightarrow> [h])"

definition oneInFlight :: "'t state \<Rightarrow> bool" where
  "oneInFlight s \<longleftrightarrow> heightCallbacks (snd s) = pending s"

section \<open>Sample collaborators\<close>

text \<open>
  A globe on which every height lookup yields 5, every normal is the first axis and the
  geodetic height of a point is its third component; a height source that asks for
  \<open>RELATIVE_TO_GROUND\<close> except at time 9, where its mode is \<open>NONE\<close>; a height source
  with no mode; a position source over the times 0, 1, 2, ...; and a scene with nothing
  registered.
\<close>

definition sampleGlobe :: Globe where
  "sampleGlobe =
     \<lparr>cartesianToCartographic = (\<lambda>c. Cartographic (x_of c) (y_of c) (z_of c)),
      geodeticSurfaceNormal = (\<lambda>c. Cartesian3 1 0 0),
      getHeight = (\<lambda>c. Some 5)\<rparr>"

definition relativeSource :: "nat HeightSource" where
  "relativeSource =
     \<lparr>heightReference = Some (\<lambda>t. if t = 9 then Some NONE else Some RELATIVE_TO_GROUND)\<rparr>"

definition plainSource :: "nat HeightSource" where
  "plainSource = \<lparr>heightReference = None\<rparr>"

definition samplePosition :: "nat \<Rightarrow> Cartesian3 option" where
  "samplePosition t =
     (if t = 0 then None
      else if t = 1 then Some (Cartesian3 1 0 0)
      else if t = 2 then Some (Cartesian3 (1 / 10 ^ 11) 0 0)
      else if t = 3 then Some (Cartesian3 0 0 0)
      else Some (Cartesian3 2 0 0))"

definition emptyScene :: SceneState where
  "emptyScene =
     \<lparr>terrainProviderChanged = [], morphComplete = [], heightCallbacks = [],
      nextHandle = 0, updateHeightCalls = 0, cancelled = []\<rparr>"

text \<open>
  The instance as constructed on the empty scene; after an evaluation at time 1 with the
  sample globe attached; after a further one at time 2; and, from the state after the
  first evaluation, after the surface has run the callback of registration 0 with a
  clamped position of geodetic height 9.
\<close>

definition fresh :: "nat state" where
  "fresh = projr (TerrainOffsetProperty_new 1 7 (Some relativeSource) (Some plainSource)
                    samplePosition emptyScene)"

definition evaluated1 :: "nat state" where
  "evaluated1 = snd (getValue Cartesian3_equalsEpsilon (Some sampleGlobe) 1 fresh)"

definition evaluated2 :: "nat state" where
  "evaluated2 = snd (getValue Cartesian3_equalsEpsilon (Some sampleGlobe) 2 evaluated1)"

definition refined1 :: "nat state" where
  "refined1 =
     step Cartesian3_equalsEpsilon evaluated1 (HeightRefined 0 sampleGlobe (Cartesian3 0 0 9))"

section \<open>Facts about the model\<close>

lemma Cartesian3_equals_iff: "Cartesian3_equals a b \<longleftrightarrow> a = b"
  by (cases a; cases b) (simp add: Cartesian3_equals_def)

lemma Cartesian3_clone_id: "Cartesian3_clone c = c"
  by (cases c) (simp add: Cartesian3_clone_def)

lemmas library_defs = Property_getValueOrDefault_def Cartesian3_clone_def
  Cartesian3_equals_def Cartesian3_multiplyByScalar_def Cartesian3_equalsEpsilon_def
  ZERO_def EPSILON10_def addEventListener_def removeListener_def
  surface_updateHeight_def removeCallback_def destroyObject_def

text \<open>The sample states, computed.\<close>

lemma fresh_eq: "fresh =
  (\<lparr>oid = 1, scene = 7, height = Some relativeSource, extrudedHeight = Some plainSource,
     getPosition = samplePosition, position = Cartesian3 0 0 0,
     cartographicPosition = Cartographic 0 0 0, normal = Cartesian3 0 0 0,
     definitionChanged = 0, terrainHeight = 0, removeCallbackFunc = None,
     removeEventListener = 1, removeModeListener = 1, destroyed = False\<rparr>,
   \<lparr>terrainProviderChanged = [1], morphComplete = [1], heightCallbacks = [],
     nextHandle = 0, updateHeightCalls = 0, cancelled = []\<rparr>)"
  by (simp add: fresh_def TerrainOffsetProperty_new_def emptyScene_def addEventListener_def)

lemma evaluated1_eq: "evaluated1 =
  (\<lparr>oid = 1, scene = 7, height = Some relativeSource, extrudedHeight = Some plainSource,
     getPosition = samplePosition, position = Cartesian3 1 0 0,
     cartographicPosition = Cartographic 1 0 0, normal = Cartesian3 1 0 0,
     definitionChanged = 0, terrainHeight = 5, removeCallbackFunc = Some 0,
     removeEventListener = 1, removeModeListener = 1, destroyed = False\<rparr>,
   \<lparr>terrainProviderChanged = [1], morphComplete = [1], heightCallbacks = [0],
     nextHandle = 1, updateHeightCalls = 1, cancelled = []\<rparr>)"
  by (simp add: evaluated1_def fresh_eq getValue_def updateClamping_def library_defs
      relativeSource_def plainSource_def samplePosition_def sampleGlobe_def)

lemma evaluated2_eq: "evaluated2 =
  (\<lparr>oid = 1, scene = 7, height = Some relativeSource, extrudedHeight = Some plainSource,
     getPosition = samplePosition, position = Cartesian3 (1 / 10 ^ 11) 0 0,
     cartographicPosition = Cartographic (1 / 10 ^ 11) 0 0, normal = Cartesian3 1 0 0,
     definitionChanged = 0, terrainHeight = 5, removeCallbackFunc = Some 1,
     removeEventListener = 1, removeModeListener = 1, destroyed = False\<rparr>,
   \<lparr>terrainProviderChanged = [1], morphComplete = [1], heightCallbacks = [1],
     nextHandle = 2, updateHeightCalls = 2, cancelled = [0]\<rparr>)"
  by (simp add: evaluated2_def evaluated1_eq getValue_def updateClamping_def library_defs
      relativeSource_def plainSource_def samplePosition_def sampleGlobe_def)

lemma refined1_eq: "refined1 =
  (\<lparr>oid = 1, scene = 7, height = Some relativeSource, extrudedHeight = Some plainSource,
     getPosition = samplePosition, position = Cartesian3 1 0 0,
     cartographicPosition = Cartographic 1 0 0, normal = Cartesian3 1 0 0,
     definitionChanged = 1, terrainHeight = 9, removeCallbackFunc = Some 0,
     removeEventListener = 1, removeModeListener = 1, destroyed = False\<rparr>,
   \<lparr>terrainProviderChanged = [1], morphComplete = [1], heightCallbacks = [0],
     nextHandle = 1, updateHeightCalls = 1, cancelled = []\<rparr>)"
  by (simp add: refined1_def evaluated1_eq updateFunction_def sampleGlobe_def)

text \<open>\<^verbatim>\<open>_updateClamping\<close> in one step, with and without a globe.\<close>

lemma updateClamping_globe:
  "updateClamping (Some globe) (this, w) =
     (this\<lparr>cartographicPosition := cartesianToCartographic globe (position this),
           removeCallbackFunc := Some (nextHandle w),
           terrainHeight :=
             (case getHeight globe (cartesianToCartographic globe (position this)) of
                Some hgt \<Rightarrow> hgt | None \<Rightarrow> 0)\<rparr>,
      w\<lparr>heightCallbacks :=
          (case removeCallbackFunc this of
             Some h \<Rightarrow> removeAll h (heightCallbacks w) | None \<Rightarrow> heightCallbacks w)
          @ [nextHandle w],
        nextHandle := Suc (nextHandle w),
        updateHeightCalls := Suc (updateHeightCalls w),
        cancelled :=
          cancelled w @ (case removeCallbackFunc this of Some h \<Rightarrow> [h] | None \<Rightarrow> [])\<rparr>)"
  by (simp add: updateClamping_def surface_updateHeight_def removeCallback_def Let_def
      split: option.splits)

lemma updateClamping_no_globe:
  "updateClamping None (this, w) = (this\<lparr>terrainHeight := 0\<rparr>, w)"
  by (simp add: updateClamping_def)

text \<open>The two ways past the guards of \<^verbatim>\<open>getValue\<close>: the cache is hit, or it is missed.\<close>

lemma getValue_hit:
  assumes "offsetRequested this time" and "getPosition this time = Some p" and "p \<noteq> ZERO"
    and "eqEps (position this) p EPSILON10"
  shows "getValue eqEps g time (this, w) =
           (Inr (Cartesian3_multiplyByScalar (normal this) (terrainHeight this)), (this, w))"
  using assms
  by (auto simp add: getValue_def resolved_def offsetRequested_def Cartesian3_equals_iff Let_def)

lemma getValue_miss:
  assumes "offsetRequested this time" and "getPosition this time = Some p" and "p \<noteq> ZERO"
    and "\<not> eqEps (position this) p EPSILON10"
  shows "getValue eqEps g time (this, w) =
     (case g of
        None \<Rightarrow> (Inl TypeError, updateClamping None (this\<lparr>position := p\<rparr>, w))
      | Some globe \<Rightarrow>
          (Inr (Cartesian3_multiplyByScalar (geodeticSurfaceNormal globe p)
                  (terrainHeight (fst (updateClamping g (this\<lparr>position := p\<rparr>, w))))),
           ((fst (updateClamping g (this\<lparr>position := p\<rparr>, w)))
               \<lparr>normal := geodeticSurfaceNormal globe p\<rparr>,
            snd (updateClamping g (this\<lparr>position := p\<rparr>, w)))))"
  using assms
  by (auto simp add: getValue_def resolved_def offsetRequested_def Cartesian3_equals_iff
      Cartesian3_clone_id Let_def split: option.splits)

text \<open>
  An evaluation that passes the guards and returns a vector leaves a cache whose normal
  times whose height is that vector.
\<close>

lemma getValue_returns_cache:
  assumes "offsetRequested this0 t0" and "getPosition this0 t0 = Some p0" and "p0 \<noteq> ZERO"
    and "getValue eqEps g0 t0 (this0, w0) = (Inr v0, (this, w))"
  shows "v0 = Cartesian3_multiplyByScalar (normal this) (terrainHeight this)"
proof (cases "eqEps (position this0) p0 EPSILON10")
  case True
  with assms show ?thesis by (auto simp add: getValue_hit)
next
  case False
  with assms show ?thesis
    by (cases g0)
       (auto simp add: getValue_def resolved_def offsetRequested_def Cartesian3_equals_iff
          Let_def)
qed

text \<open>The state an evaluation leaves: untouched, or recomputed at the new position.\<close>

lemma getValue_state:
  "snd (getValue eqEps g time (this, w)) = (this, w)
   \<or> (\<exists>p. snd (getValue eqEps g time (this, w)) = updateClamping None (this\<lparr>position := p\<rparr>, w))
   \<or> (\<exists>p n globe. snd (getValue eqEps g time (this, w)) =
         ((fst (updateClamping (Some globe) (this\<lparr>position := p\<rparr>, w)))\<lparr>normal := n\<rparr>,
          snd (updateClamping (Some globe) (this\<lparr>position := p\<rparr>, w))))"
  by (cases g) (auto simp add: getValue_def Let_def split: option.splits)

text \<open>Neither the recomputation nor an evaluation raises the change notifier.\<close>

lemma definitionChanged_updateClamping:
  "definitionChanged (fst (updateClamping g s)) = definitionChanged (fst s)"
  by (cases s; cases g) (simp_all add: updateClamping_globe updateClamping_no_globe)

lemma definitionChanged_getValue:
  "definitionChanged (fst (snd (getValue eqEps g time s))) = definitionChanged (fst s)"
proof (cases s)
  case (Pair this w)
  from getValue_state [of eqEps g time this w] Pair show ?thesis
    by (auto simp add: definitionChanged_updateClamping)
qed

subsection \<open>The invariant of the registrations\<close>

lemma oneInFlight_new:
  assumes "heightCallbacks w0 = []"
    and "TerrainOffsetProperty_new ident sc h eh gp w0 = Inr s0"
  shows "oneInFlight s0"
  using assms
  by (auto simp add: TerrainOffsetProperty_new_def oneInFlight_def pending_def
      split: if_splits)

lemma oneInFlight_updateClamping:
  assumes "oneInFlight s"
  shows "oneInFlight (updateClamping g s)"
proof (cases s)
  case (Pair this w)
  with assms show ?thesis
    by (cases g)
       (auto simp add: updateClamping_no_globe updateClamping_globe oneInFlight_def
          pending_def split: option.splits)
qed

lemma oneInFlight_updateFunction:
  assumes "oneInFlight s"
  shows "oneInFlight (updateFunction globe c (fst s), snd s)"
  using assms by (simp add: oneInFlight_def pending_def updateFunction_def Let_def)

lemma oneInFlight_getValue:
  assumes "oneInFlight s"
  shows "oneInFlight (snd (getValue eqEps g time s))"
proof (cases s)
  case (Pair this w)
  have moved: "oneInFlight (this\<lparr>position := p\<rparr>, w)" for p
    using assms Pair by (simp add: oneInFlight_def pending_def)
  have keep: "oneInFlight (fst s'\<lparr>normal := n\<rparr>, snd s')" if "oneInFlight s'"
    for s' :: "'a state" and n
    using that by (simp add: oneInFlight_def pending_def)
  from getValue_state [of eqEps g time this w] show ?thesis
  proof (elim disjE exE)
    assume "snd (getValue eqEps g time (this, w)) = (this, w)"
    with assms Pair show ?thesis by simp
  next
    fix p
    assume "snd (getValue eqEps g time (this, w)) = updateClamping None (this\<lparr>position := p\<rparr>, w)"
    with Pair oneInFlight_updateClamping [OF moved, of None p] show ?thesis by simp
  next
    fix p n globe
    assume "snd (getValue eqEps g time (this, w)) =
         ((fst (updateClamping (Some globe) (this\<lparr>position := p\<rparr>, w)))\<lparr>normal := n\<rparr>,
          snd (updateClamping (Some globe) (this\<lparr>position := p\<rparr>, w)))"
    with Pair keep [OF oneInFlight_updateClamping [OF moved, of "Some globe" p], of n]
    show ?thesis by simp
  qed
qed

lemma oneInFlight_step:
  assumes "oneInFlight s"
  shows "oneInFlight (step eqEps s op)"
  using assms
  by (cases op)
     (simp_all add: oneInFlight_getValue oneInFlight_updateClamping oneInFlight_updateFunction)

lemma oneInFlight_run:
  assumes "oneInFlight s"
  shows "oneInFlight (run eqEps s ops)"
  using assms unfolding run_def
  by (induction ops arbitrary: s) (simp_all add: oneInFlight_step)

lemma oneInFlight_length:
  assumes "oneInFlight s"
  shows "length (heightCallbacks (snd s)) \<le> 1"
  using assms by (simp add: oneInFlight_def pending_def split: option.splits)

lemma oneInFlight_destroy:
  assumes "oneInFlight s"
  shows "heightCallbacks (snd (destroy s)) = []"
  using assms
  by (cases s)
     (auto simp add: oneInFlight_def pending_def destroy_def removeCallback_def Let_def
        split: option.splits)

section \<open>The claims\<close>

subsection \<open>C1: evaluation without a globe\<close>

text \<open>
  C1 says that with no globe attached to the scene \<^verbatim>\<open>getValue\<close> returns the zero vector
  and never throws, the cached terrain height degrading to 0. \<^verbatim>\<open>_updateClamping\<close> does
  test for the missing globe and sets the height to 0, but \<^verbatim>\<open>getValue\<close> then reads
  \<^verbatim>\<open>this._scene.globe.ellipsoid\<close> without that test. On the freshly constructed sample
  instance, whose mode is \<open>RELATIVE_TO_GROUND\<close> and whose position at time 1 is
  \<open>(1, 0, 0)\<close>, the evaluation with no globe stores the position, sets the height to 0 and
  raises \<open>TypeError\<close>.
\<close>

theorem getValue_without_globe_raises:
  "getValue Cartesian3_equalsEpsilon None 1 fresh =
     (Inl TypeError,
      ((fst fresh)\<lparr>position := Cartesian3 1 0 0, terrainHeight := 0\<rparr>, snd fresh))"
  by (simp add: fresh_eq getValue_def updateClamping_def library_defs
      relativeSource_def plainSource_def samplePosition_def)

subsection \<open>C2: the guards that return zero\<close>

text \<open>
  C2: \<^verbatim>\<open>getValue\<close> returns the zero vector whenever the resolved base mode is \<open>NONE\<close> and
  the resolved extruded mode is not \<open>RELATIVE_TO_GROUND\<close>, and also whenever the position
  function yields no position or exactly the origin; this for every cached state, every
  scene, with or without a globe and for every epsilon comparison. The state is left as
  it was.
\<close>

theorem getValue_zero_guards:
  "(resolved (height this) time = NONE
      \<and> resolved (extrudedHeight this) time \<noteq> RELATIVE_TO_GROUND
    \<longrightarrow> getValue eqEps g time (this, w) = (Inr ZERO, (this, w)))
   \<and> (getPosition this time = None \<or> getPosition this time = Some ZERO
    \<longrightarrow> getValue eqEps g time (this, w) = (Inr ZERO, (this, w)))"
  by (auto simp add: getValue_def resolved_def Cartesian3_clone_id Cartesian3_equals_iff
      Let_def)

theorem getValue_zero_guards_witness:
  "resolved (height (fst evaluated1)) 9 = NONE
   \<and> resolved (extrudedHeight (fst evaluated1)) 9 \<noteq> RELATIVE_TO_GROUND
   \<and> getPosition (fst evaluated1) 9 = Some (Cartesian3 2 0 0)
   \<and> getValue Cartesian3_equalsEpsilon None 9 evaluated1 = (Inr ZERO, evaluated1)
   \<and> resolved (height (fst evaluated1)) 3 = RELATIVE_TO_GROUND
   \<and> getPosition (fst evaluated1) 3 = Some ZERO
   \<and> getValue Cartesian3_equalsEpsilon (Some sampleGlobe) 3 evaluated1 = (Inr ZERO, evaluated1)
   \<and> resolved (height (fst evaluated1)) 0 = RELATIVE_TO_GROUND
   \<and> getPosition (fst evaluated1) 0 = None
   \<and> getValue Cartesian3_equalsEpsilon (Some sampleGlobe) 0 evaluated1 = (Inr ZERO, evaluated1)"
  using getValue_zero_guards
    [of "fst evaluated1" 9 Cartesian3_equalsEpsilon None "snd evaluated1"]
    getValue_zero_guards
    [of "fst evaluated1" 3 Cartesian3_equalsEpsilon "Some sampleGlobe" "snd evaluated1"]
    getValue_zero_guards
    [of "fst evaluated1" 0 Cartesian3_equalsEpsilon "Some sampleGlobe" "snd evaluated1"]
  by (simp add: evaluated1_eq resolved_def library_defs relativeSource_def plainSource_def
      samplePosition_def)

subsection \<open>C3: the cache hit\<close>

text \<open>
  C3 says that for every requested position within the epsilon of the cached position
  \<^verbatim>\<open>getValue\<close> skips the recomputation and returns the cached normal times the cached
  height, the same result as the previous evaluation. Two runs of the sample instance
  show where that fails.

  The evaluation at time 1 returns \<open>(5, 0, 0)\<close> and registers refinement 0. The surface
  then runs its callback, which stores the height 9. The next evaluation at time 1
  requests the cached position itself, changes nothing, and returns \<open>(9, 0, 0)\<close>: the
  cached normal times the cached height, but not the result of the previous evaluation.

  The test for the origin comes before the test of the cache. After the evaluations at
  times 1 and 2 the instance caches the position \<open>(1e-11, 0, 0)\<close>, normal \<open>(1, 0, 0)\<close>
  and height 5; the position requested at time 3 is the origin, which is within the
  epsilon of the cached position, and the evaluation returns the zero vector, not
  \<open>(5, 0, 0)\<close>.
\<close>

theorem cache_hit_differs_from_previous_result:
  "getValue Cartesian3_equalsEpsilon (Some sampleGlobe) 1 fresh
       = (Inr (Cartesian3 5 0 0), evaluated1)
   \<and> refined1 = step Cartesian3_equalsEpsilon evaluated1
                    (HeightRefined 0 sampleGlobe (Cartesian3 0 0 9))
   \<and> getPosition (fst refined1) 1 = Some (position (fst refined1))
   \<and> Cartesian3_equalsEpsilon (position (fst refined1)) (position (fst refined1)) EPSILON10
   \<and> getValue Cartesian3_equalsEpsilon (Some sampleGlobe) 1 refined1
       = (Inr (Cartesian3 9 0 0), refined1)
   \<and> Cartesian3 9 0 0 \<noteq> Cartesian3 5 0 0
   \<and> offsetRequested (fst evaluated2) 3
   \<and> getPosition (fst evaluated2) 3 = Some ZERO
   \<and> Cartesian3_equalsEpsilon (position (fst evaluated2)) ZERO EPSILON10
   \<and> getValue Cartesian3_equalsEpsilon (Some sampleGlobe) 3 evaluated2 = (Inr ZERO, evaluated2)
   \<and> Cartesian3_multiplyByScalar (normal (fst evaluated2)) (terrainHeight (fst evaluated2))
       = Cartesian3 5 0 0
   \<and> Cartesian3 5 0 0 \<noteq> ZERO"
proof -
  have first: "getValue Cartesian3_equalsEpsilon (Some sampleGlobe) 1 fresh
                 = (Inr (Cartesian3 5 0 0), evaluated1)"
    by (simp add: evaluated1_eq fresh_eq getValue_def updateClamping_def library_defs
        relativeSource_def plainSource_def samplePosition_def sampleGlobe_def)
  have again: "getPosition (fst refined1) 1 = Some (position (fst refined1))
     \<and> Cartesian3_equalsEpsilon (position (fst refined1)) (position (fst refined1)) EPSILON10
     \<and> getValue Cartesian3_equalsEpsilon (Some sampleGlobe) 1 refined1
         = (Inr (Cartesian3 9 0 0), refined1)"
    by (simp add: refined1_eq getValue_def library_defs relativeSource_def plainSource_def
        samplePosition_def)
  have origin: "offsetRequested (fst evaluated2) 3
     \<and> getPosition (fst evaluated2) 3 = Some ZERO
     \<and> Cartesian3_equalsEpsilon (position (fst evaluated2)) ZERO EPSILON10
     \<and> getValue Cartesian3_equalsEpsilon (Some sampleGlobe) 3 evaluated2
         = (Inr ZERO, evaluated2)
     \<and> Cartesian3_multiplyByScalar (normal (fst evaluated2)) (terrainHeight (fst evaluated2))
         = Cartesian3 5 0 0
     \<and> Cartesian3 5 0 0 \<noteq> ZERO"
    by (simp add: evaluated2_eq getValue_def resolved_def offsetRequested_def library_defs
        relativeSource_def plainSource_def samplePosition_def)
  from first again origin show ?thesis
    by (simp add: refined1_def)
qed

text \<open>
  C3 as amended: for every requested position that is not the origin, with a mode that
  asks for an offset, and that the epsilon comparison finds equal to the cached position,
  \<^verbatim>\<open>getValue\<close> returns the cached normal times the cached height and leaves the whole
  state as it was: the cached position, normal and height, and the registrations of the
  scene. If that state is the one left by an evaluation that passed the guards and
  returned a vector, with nothing run in between, the result is that vector again.
\<close>

theorem getValue_cache_hit:
  assumes "offsetRequested this time" and "getPosition this time = Some p" and "p \<noteq> ZERO"
    and "eqEps (position this) p EPSILON10"
  shows "getValue eqEps g time (this, w) =
           (Inr (Cartesian3_multiplyByScalar (normal this) (terrainHeight this)), (this, w))
         \<and> (\<forall>g0 t0 this0 w0 p0 v0.
               offsetRequested this0 t0 \<and> getPosition this0 t0 = Some p0 \<and> p0 \<noteq> ZERO
               \<and> getValue eqEps g0 t0 (this0, w0) = (Inr v0, (this, w))
               \<longrightarrow> fst (getValue eqEps g time (this, w)) = Inr v0)"
  using assms by (auto simp add: getValue_hit dest: getValue_returns_cache)

theorem getValue_cache_hit_witness:
  "offsetRequested (fst evaluated1) 1
   \<and> getPosition (fst evaluated1) 1 = Some (Cartesian3 1 0 0)
   \<and> Cartesian3 1 0 0 \<noteq> ZERO
   \<and> Cartesian3_equalsEpsilon (position (fst evaluated1)) (Cartesian3 1 0 0) EPSILON10
   \<and> getValue Cartesian3_equalsEpsilon (Some sampleGlobe) 1 evaluated1
       = (Inr (Cartesian3 5 0 0), evaluated1)
   \<and> getValue Cartesian3_equalsEpsilon (Some sampleGlobe) 1 fresh
       = (Inr (Cartesian3 5 0 0), evaluated1)"
proof -
  have a: "offsetRequested (fst evaluated1) 1"
    by (simp add: evaluated1_eq offsetRequested_def resolved_def library_defs relativeSource_def)
  have b: "getPosition (fst evaluated1) 1 = Some (Cartesian3 1 0 0)"
    by (simp add: evaluated1_eq samplePosition_def)
  have c: "Cartesian3 1 0 0 \<noteq> ZERO"
    by (simp add: ZERO_def)
  have d: "Cartesian3_equalsEpsilon (position (fst evaluated1)) (Cartesian3 1 0 0) EPSILON10"
    by (simp add: evaluated1_eq library_defs)
  have e: "getValue Cartesian3_equalsEpsilon (Some sampleGlobe) 1 fresh
             = (Inr (Cartesian3 5 0 0), evaluated1)"
    by (simp add: evaluated1_eq fresh_eq getValue_def updateClamping_def library_defs
        relativeSource_def plainSource_def samplePosition_def sampleGlobe_def)
  from getValue_cache_hit [of "fst evaluated1" 1 "Cartesian3 1 0 0" Cartesian3_equalsEpsilon
      "Some sampleGlobe" "snd evaluated1", OF a b c d] a b c d e
  show ?thesis
    by (simp add: evaluated1_eq library_defs)
qed

subsection \<open>C4: the cache miss\<close>

text \<open>
  C4 says that for every requested position beyond the epsilon of the cached position
  that passes the mode and origin guards, \<^verbatim>\<open>getValue\<close> triggers exactly one new
  registration. With no globe attached \<^verbatim>\<open>_updateClamping\<close> returns before it registers:
  on the fresh sample instance the evaluation at time 1 with no globe leaves the count of
  \<^verbatim>\<open>updateHeight\<close> calls as it was and no registration in flight.
\<close>

theorem getValue_without_globe_registers_nothing:
  "offsetRequested (fst fresh) 1
   \<and> getPosition (fst fresh) 1 = Some (Cartesian3 1 0 0)
   \<and> Cartesian3 1 0 0 \<noteq> ZERO
   \<and> \<not> Cartesian3_equalsEpsilon (position (fst fresh)) (Cartesian3 1 0 0) EPSILON10
   \<and> updateHeightCalls (snd (snd (getValue Cartesian3_equalsEpsilon None 1 fresh)))
       = updateHeightCalls (snd fresh)
   \<and> heightCallbacks (snd (snd (getValue Cartesian3_equalsEpsilon None 1 fresh))) = []"
  by (simp add: fresh_eq getValue_def updateClamping_def resolved_def offsetRequested_def
      library_defs relativeSource_def plainSource_def samplePosition_def)

text \<open>
  C4 as amended: for every requested position that passes the mode and origin guards and
  that the epsilon comparison finds different from the cached position, \<^verbatim>\<open>getValue\<close>
  stores it as the new cached position. With a globe attached it calls the remove
  function of the pending registration, if there is one, registers exactly one new
  refinement and keeps its handle, sets the normal to the surface normal at the new
  position, and returns that normal times the cached height. With no globe attached it
  registers and cancels nothing and sets the cached height to 0.
\<close>

theorem getValue_cache_miss:
  assumes "offsetRequested this time" and "getPosition this time = Some p" and "p \<noteq> ZERO"
    and "\<not> eqEps (position this) p EPSILON10"
    and "getValue eqEps g time (this, w) = (r, (this', w'))"
  shows "position this' = p
     \<and> (\<forall>globe. g = Some globe \<longrightarrow>
          updateHeightCalls w' = Suc (updateHeightCalls w)
          \<and> heightCallbacks w' =
              (case removeCallbackFunc this of
                 Some h \<Rightarrow> removeAll h (heightCallbacks w) | None \<Rightarrow> heightCallbacks w)
              @ [nextHandle w]
          \<and> cancelled w' =
              cancelled w @ (case removeCallbackFunc this of Some h \<Rightarrow> [h] | None \<Rightarrow> [])
          \<and> removeCallbackFunc this' = Some (nextHandle w)
          \<and> normal this' = geodeticSurfaceNormal globe p
          \<and> r = Inr (Cartesian3_multiplyByScalar (normal this') (terrainHeight this')))
     \<and> (g = None \<longrightarrow>
          updateHeightCalls w' = updateHeightCalls w
          \<and> heightCallbacks w' = heightCallbacks w
          \<and> cancelled w' = cancelled w
          \<and> terrainHeight this' = 0)"
proof -
  note miss = getValue_miss [where eqEps = eqEps and g = g and w = w, OF assms(1-4)]
  show ?thesis
  proof (cases g)
    case None
    with assms(5) miss show ?thesis
      by (auto simp add: updateClamping_no_globe)
  next
    case (Some globe)
    with assms(5) miss show ?thesis
      by (auto simp add: updateClamping_globe)
  qed
qed

theorem getValue_cache_miss_witness:
  "offsetRequested (fst evaluated1) 2
   \<and> getPosition (fst evaluated1) 2 = Some (Cartesian3 (1 / 10 ^ 11) 0 0)
   \<and> Cartesian3 (1 / 10 ^ 11) 0 0 \<noteq> ZERO
   \<and> \<not> Cartesian3_equalsEpsilon (position (fst evaluated1)) (Cartesian3 (1 / 10 ^ 11) 0 0)
         EPSILON10
   \<and> getValue Cartesian3_equalsEpsilon (Some sampleGlobe) 2 evaluated1
       = (Inr (Cartesian3 5 0 0), evaluated2)
   \<and> position (fst evaluated2) = Cartesian3 (1 / 10 ^ 11) 0 0
   \<and> updateHeightCalls (snd evaluated2) = Suc (updateHeightCalls (snd evaluated1))
   \<and> heightCallbacks (snd evaluated1) = [0]
   \<and> heightCallbacks (snd evaluated2) = [1]
   \<and> cancelled (snd evaluated2) = [0]"
proof -
  have a: "offsetRequested (fst evaluated1) 2"
    by (simp add: evaluated1_eq offsetRequested_def resolved_def library_defs relativeSource_def)
  have b: "getPosition (fst evaluated1) 2 = Some (Cartesian3 (1 / 10 ^ 11) 0 0)"
    by (simp add: evaluated1_eq samplePosition_def)
  have c: "Cartesian3 (1 / 10 ^ 11) 0 0 \<noteq> ZERO"
    by (simp add: ZERO_def)
  have d: "\<not> Cartesian3_equalsEpsilon (position (fst evaluated1))
               (Cartesian3 (1 / 10 ^ 11) 0 0) EPSILON10"
    by (simp add: evaluated1_eq library_defs)
  have e: "getValue Cartesian3_equalsEpsilon (Some sampleGlobe) 2 (fst evaluated1, snd evaluated1)
             = (Inr (Cartesian3 5 0 0), (fst evaluated2, snd evaluated2))"
    by (simp add: evaluated1_eq evaluated2_eq getValue_def updateClamping_def library_defs
        relativeSource_def plainSource_def samplePosition_def sampleGlobe_def)
  from getValue_cache_miss [where eqEps = Cartesian3_equalsEpsilon, OF a b c d e] a b c d e
  show ?thesis
    by (simp add: evaluated1_eq evaluated2_eq)
qed

subsection \<open>C5: at most one registration in flight\<close>

text \<open>
  C5: at every point of the life of an instance at most one height-sample registration
  is in flight. Take an instance constructed on a scene that holds no registration and
  any sequence of evaluations, notifications and callbacks, with any globe or none
  attached at each of them. In the state reached, at most one registration is in flight,
  and it is the one whose handle the instance holds. A recomputation with a globe cancels
  that one and leaves exactly the new one in flight; a recomputation without a globe
  registers nothing; teardown leaves none.
\<close>

theorem at_most_one_registration:
  assumes "heightCallbacks w0 = []"
    and "TerrainOffsetProperty_new ident sc h eh gp w0 = Inr s0"
    and "s = run eqEps s0 ops"
  shows "length (heightCallbacks (snd s)) \<le> 1
     \<and> heightCallbacks (snd s) = pending s
     \<and> heightCallbacks (snd (updateClamping (Some globe) s)) = [nextHandle (snd s)]
     \<and> cancelled (snd (updateClamping (Some globe) s)) = cancelled (snd s) @ pending s
     \<and> heightCallbacks (snd (updateClamping None s)) = heightCallbacks (snd s)
     \<and> heightCallbacks (snd (destroy s)) = []"
proof -
  have inv: "oneInFlight s"
    using assms by (simp add: oneInFlight_run oneInFlight_new [OF assms(1,2)])
  have regs: "heightCallbacks (snd (updateClamping (Some globe) s)) = [nextHandle (snd s)]"
    using inv
    by (cases s) (auto simp add: updateClamping_globe oneInFlight_def pending_def
        split: option.splits)
  have canc: "cancelled (snd (updateClamping (Some globe) s)) = cancelled (snd s) @ pending s"
    by (cases s) (auto simp add: updateClamping_globe pending_def split: option.splits)
  have none: "heightCallbacks (snd (updateClamping None s)) = heightCallbacks (snd s)"
    by (cases s) (simp add: updateClamping_no_globe)
  have len: "length (heightCallbacks (snd s)) \<le> 1"
    using inv by (rule oneInFlight_length)
  have pend: "heightCallbacks (snd s) = pending s"
    using inv by (simp add: oneInFlight_def)
  have gone: "heightCallbacks (snd (destroy s)) = []"
    using inv by (rule oneInFlight_destroy)
  from len pend regs canc none gone show ?thesis
    by blast
qed

theorem at_most_one_registration_witness:
  "heightCallbacks emptyScene = []
   \<and> TerrainOffsetProperty_new 1 7 (Some relativeSource) (Some plainSource) samplePosition
        emptyScene = Inr fresh
   \<and> evaluated2 = run Cartesian3_equalsEpsilon fresh
        [GetValue (Some sampleGlobe) 1, GetValue (Some sampleGlobe) 2]
   \<and> heightCallbacks (snd evaluated2) = [1]
   \<and> pending evaluated2 = [1]
   \<and> heightCallbacks (snd (updateClamping (Some sampleGlobe) evaluated2)) = [2]
   \<and> cancelled (snd (updateClamping (Some sampleGlobe) evaluated2)) = [0, 1]
   \<and> heightCallbacks (snd (destroy evaluated2)) = []"
proof -
  have a: "heightCallbacks emptyScene = []"
    by (simp add: emptyScene_def)
  have b: "TerrainOffsetProperty_new 1 7 (Some relativeSource) (Some plainSource)
             samplePosition emptyScene = Inr fresh"
    by (simp add: fresh_def TerrainOffsetProperty_new_def)
  have c: "evaluated2 = run Cartesian3_equalsEpsilon fresh
             [GetValue (Some sampleGlobe) 1, GetValue (Some sampleGlobe) 2]"
    by (simp add: run_def evaluated2_def evaluated1_def)
  have d: "pending evaluated2 = [1]" "nextHandle (snd evaluated2) = 2"
    "cancelled (snd evaluated2) = [0]"
    by (simp_all add: evaluated2_eq pending_def)
  from at_most_one_registration
    [where eqEps = Cartesian3_equalsEpsilon and globe = sampleGlobe, OF a b c] a b c d
  show ?thesis
    by simp
qed

subsection \<open>C6: when the change notifier is raised\<close>

text \<open>
  C6 says that every operation that gives the cached terrain height a new, different
  value raises exactly one change notification, and that none is raised when the height
  is unchanged. On the fresh sample instance the listener of the terrain-provider
  notification runs \<^verbatim>\<open>_updateClamping\<close>, which takes the height from 0 to 5 and raises
  nothing. After the evaluation at time 1 the cached height is 5; the callback run with
  a clamped position of geodetic height 5 stores the same height and raises the event.
\<close>

theorem notifier_not_tied_to_height_change:
  "terrainHeight (fst fresh) = 0
   \<and> terrainHeight
        (fst (step Cartesian3_equalsEpsilon fresh (TerrainProviderChanged (Some sampleGlobe))))
       = 5
   \<and> definitionChanged
        (fst (step Cartesian3_equalsEpsilon fresh (TerrainProviderChanged (Some sampleGlobe))))
       = definitionChanged (fst fresh)
   \<and> terrainHeight (updateFunction sampleGlobe (Cartesian3 0 0 5) (fst evaluated1))
       = terrainHeight (fst evaluated1)
   \<and> definitionChanged (updateFunction sampleGlobe (Cartesian3 0 0 5) (fst evaluated1))
       = Suc (definitionChanged (fst evaluated1))"
  by (simp add: fresh_eq evaluated1_eq updateClamping_globe updateFunction_def sampleGlobe_def)

text \<open>
  C6 as amended: the change notifier is raised exactly once by every run of the
  asynchronous refinement callback, which stores the geodetic height of the clamped
  position whether or not it differs from the cached one. The clamping recomputation
  (its reset to 0 without a globe and its synchronous best-effort update), the listeners
  of the two notifications and \<^verbatim>\<open>getValue\<close> raise no change notification.
\<close>

theorem notifier_raised_by_callback_only:
  "definitionChanged (updateFunction globe clampedPosition that) = Suc (definitionChanged that)
   \<and> terrainHeight (updateFunction globe clampedPosition that)
       = carto_height (cartesianToCartographic globe clampedPosition)
   \<and> definitionChanged (fst (updateClamping g s)) = definitionChanged (fst s)
   \<and> definitionChanged (fst (snd (getValue eqEps g time s))) = definitionChanged (fst s)
   \<and> definitionChanged (fst (step eqEps s (TerrainProviderChanged g))) = definitionChanged (fst s)
   \<and> definitionChanged (fst (step eqEps s (MorphComplete g))) = definitionChanged (fst s)"
  by (simp add: definitionChanged_updateClamping definitionChanged_getValue)
     (simp add: updateFunction_def Let_def)

subsection \<open>C7: what the clamping recomputation leaves\<close>

text \<open>
  C7: with no globe attached \<^verbatim>\<open>_updateClamping\<close> sets the cached terrain height to 0 and
  changes nothing else, so it registers no refinement. With a globe attached it registers
  one refinement, whose handle it keeps and which is in flight when it returns, and the
  cached terrain height is then the value of the synchronous lookup \<^verbatim>\<open>globe.getHeight\<close>
  at the geodetic coordinate of the cached position when that lookup yields one, and 0
  otherwise.
\<close>

theorem updateClamping_postcondition:
  "updateClamping None (this, w) = (this\<lparr>terrainHeight := 0\<rparr>, w)
   \<and> terrainHeight (fst (updateClamping (Some globe) (this, w)))
       = (case getHeight globe (cartesianToCartographic globe (position this)) of
            Some hgt \<Rightarrow> hgt | None \<Rightarrow> 0)
   \<and> updateHeightCalls (snd (updateClamping (Some globe) (this, w))) = Suc (updateHeightCalls w)
   \<and> removeCallbackFunc (fst (updateClamping (Some globe) (this, w))) = Some (nextHandle w)
   \<and> nextHandle w \<in> set (heightCallbacks (snd (updateClamping (Some globe) (this, w))))"
  by (simp add: updateClamping_globe updateClamping_no_globe)

subsection \<open>C8: equality\<close>

text \<open>
  C8: for every pair of instances, \<^verbatim>\<open>equals\<close> returns true if and only if they are the
  same instance, or they reference the same scene and their cached positions are equal.
\<close>

theorem equals_iff:
  "equals this (Instance that) \<longleftrightarrow>
     oid this = oid that \<or> (scene this = scene that \<and> position this = position that)"
  by (simp add: equals_def Property_equals_def Cartesian3_equals_iff)

subsection \<open>C10: a position near the origin on a fresh instance\<close>

text \<open>
  C10: on a freshly constructed instance the cached position and normal are the zero
  vector and the cached height is 0. For every requested position that is not the origin
  but that the epsilon comparison finds equal to the origin, with a mode that asks for an
  offset, \<^verbatim>\<open>getValue\<close> returns the zero vector and leaves the instance and the scene as
  the constructor left them: the cache is not updated and no refinement is registered.
  This holds with or without a globe.
\<close>

theorem getValue_fresh_near_origin:
  assumes "TerrainOffsetProperty_new ident sc h eh gp w0 = Inr s0"
    and "offsetRequested (fst s0) time"
    and "gp time = Some p" and "p \<noteq> ZERO"
    and "eqEps ZERO p EPSILON10"
  shows "position (fst s0) = ZERO \<and> normal (fst s0) = ZERO \<and> terrainHeight (fst s0) = 0
         \<and> heightCallbacks (snd s0) = heightCallbacks w0
         \<and> updateHeightCalls (snd s0) = updateHeightCalls w0
         \<and> getValue eqEps g time s0 = (Inr ZERO, s0)"
proof -
  obtain this w where s0: "s0 = (this, w)" by (cases s0)
  from assms(1) s0 have f: "position this = ZERO" "normal this = ZERO" "terrainHeight this = 0"
    "getPosition this = gp" "heightCallbacks w = heightCallbacks w0"
    "updateHeightCalls w = updateHeightCalls w0"
    by (auto simp add: TerrainOffsetProperty_new_def ZERO_def split: if_splits)
  from assms(2) s0 have a: "offsetRequested this time" by simp
  from assms(3) f have b: "getPosition this time = Some p" by simp
  from assms(5) f have d: "eqEps (position this) p EPSILON10" by simp
  from getValue_hit [of this time p eqEps g w, OF a b assms(4) d] f s0 show ?thesis
    by (simp add: Cartesian3_multiplyByScalar_def ZERO_def)
qed

theorem getValue_fresh_near_origin_witness:
  "TerrainOffsetProperty_new 1 7 (Some relativeSource) (Some plainSource) samplePosition
       emptyScene = Inr fresh
   \<and> offsetRequested (fst fresh) 2
   \<and> samplePosition 2 = Some (Cartesian3 (1 / 10 ^ 11) 0 0)
   \<and> Cartesian3 (1 / 10 ^ 11) 0 0 \<noteq> ZERO
   \<and> Cartesian3_equalsEpsilon ZERO (Cartesian3 (1 / 10 ^ 11) 0 0) EPSILON10
   \<and> getValue Cartesian3_equalsEpsilon (Some sampleGlobe) 2 fresh = (Inr ZERO, fresh)
   \<and> getValue Cartesian3_equalsEpsilon None 2 fresh = (Inr ZERO, fresh)"
proof -
  have a: "TerrainOffsetProperty_new 1 7 (Some relativeSource) (Some plainSource)
             samplePosition emptyScene = Inr fresh"
    by (simp add: fresh_def TerrainOffsetProperty_new_def)
  have b: "offsetRequested (fst fresh) 2"
    by (simp add: fresh_eq offsetRequested_def resolved_def library_defs relativeSource_def)
  have c: "samplePosition 2 = Some (Cartesian3 (1 / 10 ^ 11) 0 0)"
    by (simp add: samplePosition_def)
  have d: "Cartesian3 (1 / 10 ^ 11) 0 0 \<noteq> ZERO"
    by (simp add: ZERO_def)
  have e: "Cartesian3_equalsEpsilon ZERO (Cartesian3 (1 / 10 ^ 11) 0 0) EPSILON10"
    by (simp add: library_defs)
  from getValue_fresh_near_origin
      [where eqEps = Cartesian3_equalsEpsilon and g = "Some sampleGlobe", OF a b c d e]
    getValue_fresh_near_origin
      [where eqEps = Cartesian3_equalsEpsilon and g = None, OF a b c d e]
    a b c d e
  show ?thesis by simp
qed

end
